theory Spec2Isabelle
  imports Complex_Main "HOL-Library.AList"
begin

section \<open>Data model of the immune placement engine\<close>

text \<open>
  The embedding follows \<^verbatim>\<open>immune_placement.py\<close> and \<^verbatim>\<open>simulation_runner.py\<close>.
  Python floats are read as exact real numbers; \<^verbatim>\<open>float('inf')\<close>, which the code
  only uses as the P2P delay of an empty super-peer list, is the value \<open>None\<close> of an
  option. Python dictionaries keep insertion order, so a dictionary that the code
  iterates over is an association list maintained with \<open>AList.update\<close> (overwrite in
  place, or append at the end), and a dictionary that is only looked up is a map.
  Every exception the code can raise is a value of \<open>py_error\<close>.
\<close>

datatype py_error = KeyError | ValueError | ZeroDivisionError | IndexError | AttributeError

record Peer =
  peer_id :: string
  region :: string
  demand :: real
  rtt_to_edge_a :: real
  rtt_to_edge_b :: real
  neighbors :: "string list"

record RTTMatrix =
  peer_to_peer :: "(string \<times> string) \<rightharpoonup> real"
  peer_to_edge :: "(string \<times> string) \<rightharpoonup> real"

record Solution =
  super_peers :: "string list"
  edge_assignments :: "(string \<times> string) list"
  fitness :: real
  avg_delay :: real
  load_imbalance :: real
  edge_a_load :: real
  edge_b_load :: real

text \<open>The constructor \<^verbatim>\<open>Solution(super_peers=..., edge_assignments=...)\<close>: the derived
  fields take their dataclass default 0.0.\<close>

definition new_solution :: "string list \<Rightarrow> (string \<times> string) list \<Rightarrow> Solution" where
  "new_solution sps ea =
     \<lparr>super_peers = sps, edge_assignments = ea, fitness = 0, avg_delay = 0,
      load_imbalance = 0, edge_a_load = 0, edge_b_load = 0\<rparr>"

record ImmunePlacementAlgorithm =
  peers :: "(string \<times> Peer) list"
  peer_list :: "string list"
  rtt_matrix :: RTTMatrix
  num_super_peers :: int
  alpha :: real
  beta :: real
  edge_capacity :: real
  pop_size :: int
  clone_factor :: int
  mutation_rate :: real
  max_generations :: int

text \<open>The dictionary comprehension \<^verbatim>\<open>{p.id: p for p in peers}\<close>.\<close>

definition peer_dict :: "Peer list \<Rightarrow> (string \<times> Peer) list" where
  "peer_dict ps = fold (\<lambda>p d. AList.update (peer_id p) p d) ps []"

definition init_algorithm ::
  "Peer list \<Rightarrow> RTTMatrix \<Rightarrow> int \<Rightarrow> real \<Rightarrow> real \<Rightarrow> real \<Rightarrow> int \<Rightarrow> int \<Rightarrow> real \<Rightarrow> int
   \<Rightarrow> ImmunePlacementAlgorithm" where
  "init_algorithm ps m nsp a b cap psz cf mr mg =
     \<lparr>peers = peer_dict ps, peer_list = map peer_id ps, rtt_matrix = m,
      num_super_peers = nsp, alpha = a, beta = b, edge_capacity = cap, pop_size = psz,
      clone_factor = cf, mutation_rate = mr, max_generations = mg\<rparr>"

section \<open>Distance oracle\<close>

definition get_peer_rtt :: "ImmunePlacementAlgorithm \<Rightarrow> string \<Rightarrow> string \<Rightarrow> real" where
  "get_peer_rtt alg peer_i peer_j =
     (if peer_i = peer_j then 0
      else case peer_to_peer (rtt_matrix alg) (peer_i, peer_j) of
             Some v \<Rightarrow> v
           | None \<Rightarrow> (case peer_to_peer (rtt_matrix alg) (peer_j, peer_i) of
                        Some v \<Rightarrow> v
                      | None \<Rightarrow> 100))"

text \<open>\<^verbatim>\<open>self.peers[peer_id]\<close> raises KeyError for an identifier outside the population.\<close>

definition get_edge_rtt :: "ImmunePlacementAlgorithm \<Rightarrow> string \<Rightarrow> string \<Rightarrow> py_error + real" where
  "get_edge_rtt alg pid edge =
     (case peer_to_edge (rtt_matrix alg) (pid, edge) of
        Some v \<Rightarrow> Inr v
      | None \<Rightarrow> (case map_of (peers alg) pid of
                   None \<Rightarrow> Inl KeyError
                 | Some p \<Rightarrow> Inr (if edge = ''A'' then rtt_to_edge_a p else rtt_to_edge_b p)))"

section \<open>Objective evaluator\<close>

text \<open>\<^verbatim>\<open>min(...)\<close> over the super-peer distances, guarded in the source by
  \<^verbatim>\<open>if solution.super_peers\<close>; \<open>None\<close> stands for the initial \<^verbatim>\<open>float('inf')\<close>.\<close>

fun min_rtt :: "real list \<Rightarrow> real option" where
  "min_rtt [] = None"
| "min_rtt (x # xs) = Some (fold min xs x)"

text \<open>\<^verbatim>\<open>min(d_super + 5.0, d_edge)\<close>, where an infinite \<^verbatim>\<open>d_super\<close> loses to every
  edge delay.\<close>

definition effective_delay :: "real option \<Rightarrow> real \<Rightarrow> real" where
  "effective_delay d_super d_edge =
     (case d_super of None \<Rightarrow> d_edge | Some d \<Rightarrow> min (d + 5) d_edge)"

text \<open>The dictionary \<^verbatim>\<open>edge_loads = {'A': 0.0, 'B': 0.0}\<close> never gains a key, so it is
  the pair of its two values; \<^verbatim>\<open>edge_loads[e] += d\<close> raises KeyError for any other
  label.\<close>

definition add_load :: "string \<Rightarrow> real \<Rightarrow> real \<times> real \<Rightarrow> py_error + real \<times> real" where
  "add_load e d l =
     (if e = ''A'' then Inr (fst l + d, snd l)
      else if e = ''B'' then Inr (fst l, snd l + d)
      else Inl KeyError)"

text \<open>\<^verbatim>\<open>solution.edge_assignments.get(peer_id, 'A')\<close>.\<close>

definition assigned_edge :: "Solution \<Rightarrow> string \<Rightarrow> string" where
  "assigned_edge s pid =
     (case map_of (edge_assignments s) pid of None \<Rightarrow> ''A'' | Some e \<Rightarrow> e)"

text \<open>The loop over \<^verbatim>\<open>self.peers.items()\<close>: the accumulator is the list
  \<^verbatim>\<open>effective_delays\<close> and the two edge loads.\<close>

fun eval_peers ::
  "ImmunePlacementAlgorithm \<Rightarrow> Solution \<Rightarrow> (string \<times> Peer) list
   \<Rightarrow> (string \<times> real \<times> real) list \<times> (real \<times> real)
   \<Rightarrow> py_error + (string \<times> real \<times> real) list \<times> (real \<times> real)" where
  "eval_peers alg s [] acc = Inr acc"
| "eval_peers alg s ((pid, p) # rest) (delays, loads) =
     (let d_super = min_rtt (map (get_peer_rtt alg pid) (super_peers s));
          e = assigned_edge s pid
      in case get_edge_rtt alg pid e of
           Inl err \<Rightarrow> Inl err
         | Inr d_edge \<Rightarrow>
             (let d_effective = effective_delay d_super d_edge
              in case add_load e (demand p) loads of
                   Inl err \<Rightarrow> Inl err
                 | Inr loads' \<Rightarrow>
                     eval_peers alg s rest (delays @ [(pid, d_effective, demand p)], loads')))"

text \<open>\<^verbatim>\<open>evaluate_solution\<close> writes the five derived fields into the solution and returns
  them as a tuple; the model returns the updated solution, whose derived fields are
  that tuple. A float division by zero raises ZeroDivisionError.\<close>

definition evaluate_solution :: "ImmunePlacementAlgorithm \<Rightarrow> Solution \<Rightarrow> py_error + Solution" where
  "evaluate_solution alg s =
     (case eval_peers alg s (peers alg) ([], (0, 0)) of
        Inl err \<Rightarrow> Inl err
      | Inr (effective_delays, edge_loads) \<Rightarrow>
          (let total_demand = sum_list (map (\<lambda>(k, p). demand p) (peers alg));
               avg = (if total_demand > 0
                      then sum_list (map (\<lambda>(k, d, r). d * r) effective_delays) / total_demand
                      else 0);
               load_a = fst edge_loads;
               load_b = snd edge_loads;
               load_avg = (load_a + load_b) / 2;
               imb = (1 / 2) * ((load_a - load_avg)\<^sup>2 + (load_b - load_avg)\<^sup>2);
               normalized_delay = avg / 200;
               max_imbalance = (total_demand / 2)\<^sup>2;
               normalized_imbalance = (if max_imbalance > 0 then imb / max_imbalance else 0);
               objective = alpha alg * normalized_delay + beta alg * normalized_imbalance
           in if objective + 1 / 1000000 = 0 then Inl ZeroDivisionError
              else Inr (s\<lparr>fitness := 1 / (objective + 1 / 1000000), avg_delay := avg,
                         load_imbalance := imb, edge_a_load := load_a,
                         edge_b_load := load_b\<rparr>)))"

section \<open>The metrics routine of the simulation runner\<close>

record Metrics =
  avg_delay_ms :: real
  load_imbalance_m :: real
  edge_a_load_kbps :: real
  edge_b_load_kbps :: real
  edge_a_utilization :: real
  edge_b_utilization :: real
  p2p_hit_rate :: real
  edge_a_hits :: nat
  edge_b_hits :: nat
  p2p_hits :: nat
  super_peers_m :: "string list"
  num_super_peers_m :: nat

record metrics_acc =
  m_delays :: "(string \<times> real \<times> real) list"
  m_loads :: "real \<times> real"
  m_p2p_hits :: nat
  m_edge_hits :: "nat \<times> nat"
  m_total_demand :: real

text \<open>\<^verbatim>\<open>edge_hits[assigned_edge] += 1\<close> on the dictionary \<^verbatim>\<open>{'A': 0, 'B': 0}\<close>.\<close>

definition add_hit :: "string \<Rightarrow> nat \<times> nat \<Rightarrow> py_error + nat \<times> nat" where
  "add_hit e h =
     (if e = ''A'' then Inr (Suc (fst h), snd h)
      else if e = ''B'' then Inr (fst h, Suc (snd h))
      else Inl KeyError)"

text \<open>The inline lookup of the runner:
  \<^verbatim>\<open>peer_to_peer.get((peer_id, sp), peer_to_peer.get((sp, peer_id), 100.0))\<close>.\<close>

definition runner_peer_rtt :: "RTTMatrix \<Rightarrow> string \<Rightarrow> string \<Rightarrow> real" where
  "runner_peer_rtt m pid sp =
     (case peer_to_peer m (pid, sp) of
        Some v \<Rightarrow> v
      | None \<Rightarrow> (case peer_to_peer m (sp, pid) of Some v \<Rightarrow> v | None \<Rightarrow> 100))"

fun metrics_peers ::
  "Solution \<Rightarrow> RTTMatrix \<Rightarrow> (string \<times> Peer) list \<Rightarrow> metrics_acc \<Rightarrow> py_error + metrics_acc" where
  "metrics_peers s m [] acc = Inr acc"
| "metrics_peers s m ((pid, p) # rest) acc =
     (let total = m_total_demand acc + demand p;
          d_super = min_rtt (map (runner_peer_rtt m pid) (super_peers s));
          e = assigned_edge s pid;
          d_edge = (if e = ''A'' then rtt_to_edge_a p else rtt_to_edge_b p);
          p2p = (case d_super of None \<Rightarrow> False | Some d \<Rightarrow> d + 5 < d_edge);
          d_effective = (case d_super of None \<Rightarrow> d_edge
                         | Some d \<Rightarrow> if d + 5 < d_edge then d + 5 else d_edge)
      in case (if p2p then Inr (m_edge_hits acc) else add_hit e (m_edge_hits acc)) of
           Inl err \<Rightarrow> Inl err
         | Inr hits' \<Rightarrow>
             (case add_load e (demand p) (m_loads acc) of
                Inl err \<Rightarrow> Inl err
              | Inr loads' \<Rightarrow>
                  metrics_peers s m rest
                    \<lparr>m_delays = m_delays acc @ [(pid, d_effective, demand p)],
                     m_loads = loads',
                     m_p2p_hits = (if p2p then Suc (m_p2p_hits acc) else m_p2p_hits acc),
                     m_edge_hits = hits',
                     m_total_demand = total\<rparr>))"

definition evaluate_solution_metrics ::
  "Solution \<Rightarrow> Peer list \<Rightarrow> RTTMatrix \<Rightarrow> py_error + Metrics" where
  "evaluate_solution_metrics s ps m =
     (case metrics_peers s m (peer_dict ps)
             \<lparr>m_delays = [], m_loads = (0, 0), m_p2p_hits = 0, m_edge_hits = (0, 0),
              m_total_demand = 0\<rparr> of
        Inl err \<Rightarrow> Inl err
      | Inr acc \<Rightarrow>
          (let total_demand = m_total_demand acc;
               avg = (if total_demand > 0
                      then sum_list (map (\<lambda>(k, d, r). d * r) (m_delays acc)) / total_demand
                      else 0);
               load_a = fst (m_loads acc);
               load_b = snd (m_loads acc);
               load_avg = (load_a + load_b) / 2;
               imb = (1 / 2) * ((load_a - load_avg)\<^sup>2 + (load_b - load_avg)\<^sup>2)
           in Inr \<lparr>avg_delay_ms = avg, load_imbalance_m = imb,
                   edge_a_load_kbps = load_a, edge_b_load_kbps = load_b,
                   edge_a_utilization = load_a / 10000, edge_b_utilization = load_b / 10000,
                   p2p_hit_rate = (if ps \<noteq> [] then real (m_p2p_hits acc) / real (length ps)
                                   else 0),
                   edge_a_hits = fst (m_edge_hits acc), edge_b_hits = snd (m_edge_hits acc),
                   p2p_hits = m_p2p_hits acc, super_peers_m = super_peers s,
                   num_super_peers_m = length (super_peers s)\<rparr>))"

section \<open>Baseline placements of the simulation runner\<close>

text \<open>\<^verbatim>\<open>_nearest_edge_baseline\<close>: each peer goes to the edge with the strictly smaller
  stored latency, edge B on a tie.\<close>

definition nearest_edge_baseline :: "Peer list \<Rightarrow> Solution" where
  "nearest_edge_baseline ps =
     new_solution []
       (fold (\<lambda>p d. AList.update (peer_id p)
                      (if rtt_to_edge_a p < rtt_to_edge_b p then ''A'' else ''B'') d) ps [])"

text \<open>\<^verbatim>\<open>_round_robin_baseline\<close>: even positions of the peer list go to edge A.\<close>

definition round_robin_baseline :: "Peer list \<Rightarrow> Solution" where
  "round_robin_baseline ps =
     new_solution []
       (fold (\<lambda>(i, p) d. AList.update (peer_id p) (if i mod 2 = 0 then ''A'' else ''B'') d)
             (zip [0 ..< length ps] ps) [])"


section \<open>Random source\<close>

text \<open>
  The module-level generator of Python's \<^verbatim>\<open>random\<close> is an explicit argument: a list
  of raw draws, read as zeros once it is used up. Each primitive consumes one draw per
  random decision and can produce every outcome the Python primitive can produce:
  \<^verbatim>\<open>random.random()\<close> a multiple of \<open>2\<^sup>-\<^sup>5\<^sup>3\<close> in \<open>[0, 1)\<close>, \<^verbatim>\<open>randint(0, n - 1)\<close> an index
  below \<open>n\<close>, \<^verbatim>\<open>choice\<close> an element, \<^verbatim>\<open>sample\<close> elements at distinct positions.
\<close>

type_synonym rng = "nat list"

definition next_draw :: "rng \<Rightarrow> nat \<times> rng" where
  "next_draw g = (case g of [] \<Rightarrow> (0, []) | n # g' \<Rightarrow> (n, g'))"

definition random_random :: "rng \<Rightarrow> real \<times> rng" where
  "random_random g =
     (case next_draw g of (n, g') \<Rightarrow> (real (n mod 9007199254740992) / 9007199254740992, g'))"

text \<open>\<^verbatim>\<open>random.randint(0, n - 1)\<close>, called by the source only when \<open>n > 0\<close>.\<close>

definition random_randint0 :: "nat \<Rightarrow> rng \<Rightarrow> nat \<times> rng" where
  "random_randint0 n g = (case next_draw g of (d, g') \<Rightarrow> (d mod n, g'))"

definition random_choice :: "'a list \<Rightarrow> rng \<Rightarrow> py_error + 'a \<times> rng" where
  "random_choice xs g =
     (if xs = [] then Inl IndexError
      else case next_draw g of (d, g') \<Rightarrow> Inr (xs ! (d mod length xs), g'))"

fun sample_loop :: "'a list \<Rightarrow> nat \<Rightarrow> rng \<Rightarrow> 'a list \<times> rng" where
  "sample_loop xs 0 g = ([], g)"
| "sample_loop xs (Suc k) g =
     (case next_draw g of
        (d, g') \<Rightarrow>
          (let i = d mod length xs
           in case sample_loop (take i xs @ drop (Suc i) xs) k g' of
                (ys, g'') \<Rightarrow> (xs ! i # ys, g'')))"

text \<open>\<^verbatim>\<open>random.sample(population, k)\<close> raises ValueError unless \<open>0 \<le> k \<le> len\<close>.\<close>

definition random_sample :: "'a list \<Rightarrow> int \<Rightarrow> rng \<Rightarrow> py_error + 'a list \<times> rng" where
  "random_sample xs k g =
     (if k < 0 \<or> int (length xs) < k then Inl ValueError
      else Inr (sample_loop xs (nat k) g))"

section \<open>Solution factory\<close>

text \<open>The loop of \<^verbatim>\<open>generate_random_solution\<close> over \<^verbatim>\<open>self.peers.items()\<close>.\<close>

fun random_assignments ::
  "(string \<times> Peer) list \<Rightarrow> (string \<times> string) list \<Rightarrow> rng \<Rightarrow> (string \<times> string) list \<times> rng" where
  "random_assignments [] ea g = (ea, g)"
| "random_assignments ((pid, p) # rest) ea g =
     (case random_random g of
        (u, g') \<Rightarrow>
          (let e = (if rtt_to_edge_a p < rtt_to_edge_b p
                    then (if u < 7 / 10 then ''A'' else ''B'')
                    else (if u < 7 / 10 then ''B'' else ''A''))
           in random_assignments rest (AList.update pid e ea) g'))"

definition generate_random_solution ::
  "ImmunePlacementAlgorithm \<Rightarrow> rng \<Rightarrow> py_error + Solution \<times> rng" where
  "generate_random_solution alg g =
     (case random_sample (peer_list alg)
             (min (num_super_peers alg) (int (length (peer_list alg)))) g of
        Inl err \<Rightarrow> Inl err
      | Inr (sps, g1) \<Rightarrow>
          (case random_assignments (peers alg) [] g1 of
             (ea, g2) \<Rightarrow>
               (case evaluate_solution alg (new_solution sps ea) of
                  Inl err \<Rightarrow> Inl err
                | Inr s \<Rightarrow> Inr (s, g2))))"

definition clone_solution :: "Solution \<Rightarrow> Solution" where
  "clone_solution s = new_solution (super_peers s) (edge_assignments s)"

text \<open>The first half of \<^verbatim>\<open>mutate_solution\<close>: \<^verbatim>\<open>random.random()\<close> is drawn before the
  length test of the conjunction.\<close>

definition mutate_super_peers ::
  "ImmunePlacementAlgorithm \<Rightarrow> string list \<Rightarrow> rng \<Rightarrow> string list \<times> rng" where
  "mutate_super_peers alg sps g =
     (case random_random g of
        (u, g1) \<Rightarrow>
          if u < mutation_rate alg \<and> length sps > 0 then
            (case random_randint0 (length sps) g1 of
               (idx, g2) \<Rightarrow>
                 (let candidates = filter (\<lambda>p. p \<notin> set sps) (peer_list alg)
                  in case random_choice candidates g2 of
                       Inl err \<Rightarrow> (sps, g2)
                     | Inr (c, g3) \<Rightarrow> (sps[idx := c], g3)))
          else (sps, g1))"

text \<open>The second half: the loop over the keys of the clone's dictionary, which only
  rewrites the value of the key it visits.\<close>

fun mutate_edges :: "real \<Rightarrow> (string \<times> string) list \<Rightarrow> rng \<Rightarrow> (string \<times> string) list \<times> rng" where
  "mutate_edges rate [] g = ([], g)"
| "mutate_edges rate ((k, e) # rest) g =
     (case random_random g of
        (u, g1) \<Rightarrow>
          (let e' = (if u < rate * (1 / 2) then (if e = ''A'' then ''B'' else ''A'') else e)
           in case mutate_edges rate rest g1 of
                (rest', g2) \<Rightarrow> ((k, e') # rest', g2)))"

definition mutate_solution ::
  "ImmunePlacementAlgorithm \<Rightarrow> Solution \<Rightarrow> rng \<Rightarrow> Solution \<times> rng" where
  "mutate_solution alg s g =
     (let mutated = clone_solution s
      in case mutate_super_peers alg (super_peers mutated) g of
           (sps, g1) \<Rightarrow>
             (case mutate_edges (mutation_rate alg) (edge_assignments mutated) g1 of
                (ea, g2) \<Rightarrow> (mutated\<lparr>super_peers := sps, edge_assignments := ea\<rparr>, g2)))"

section \<open>Optimization loop\<close>

record history_entry =
  generation :: nat
  best_fitness :: real
  avg_fitness :: real
  best_avg_delay :: real
  best_load_imbalance :: real
  best_edge_a_load :: real
  best_edge_b_load :: real

text \<open>The variables of \<^verbatim>\<open>optimize\<close> that live across generations; \<open>cur_best_fitness\<close> is
  the local \<^verbatim>\<open>best_fitness\<close>, and \<open>best_solution = None\<close> is Python's \<^verbatim>\<open>None\<close>.\<close>

record opt_state =
  population :: "Solution list"
  best_solution :: "Solution option"
  cur_best_fitness :: real
  generation_history :: "history_entry list"
  best_fitness_history :: "real list"
  avg_fitness_history :: "real list"
  rng_state :: rng

text \<open>\<^verbatim>\<open>[self.generate_random_solution() for _ in range(self.pop_size)]\<close>.\<close>

fun init_population ::
  "ImmunePlacementAlgorithm \<Rightarrow> nat \<Rightarrow> rng \<Rightarrow> py_error + Solution list \<times> rng" where
  "init_population alg 0 g = Inr ([], g)"
| "init_population alg (Suc n) g =
     (case generate_random_solution alg g of
        Inl err \<Rightarrow> Inl err
      | Inr (s, g1) \<Rightarrow>
          (case init_population alg n g1 of
             Inl err \<Rightarrow> Inl err
           | Inr (ss, g2) \<Rightarrow> Inr (s # ss, g2)))"

text \<open>\<^verbatim>\<open>for solution in population: self.evaluate_solution(solution)\<close>.\<close>

fun evaluate_all :: "ImmunePlacementAlgorithm \<Rightarrow> Solution list \<Rightarrow> py_error + Solution list" where
  "evaluate_all alg [] = Inr []"
| "evaluate_all alg (s # ss) =
     (case evaluate_solution alg s of
        Inl err \<Rightarrow> Inl err
      | Inr s' \<Rightarrow>
          (case evaluate_all alg ss of
             Inl err \<Rightarrow> Inl err
           | Inr ss' \<Rightarrow> Inr (s' # ss')))"

text \<open>One step of the best-tracking loop; the state is
  \<^verbatim>\<open>(best_fitness, best_solution)\<close>.\<close>

definition track_best :: "Solution \<Rightarrow> real \<times> Solution option \<Rightarrow> real \<times> Solution option" where
  "track_best s b = (if fitness s > fst b then (fitness s, Some (clone_solution s)) else b)"

text \<open>\<^verbatim>\<open>int(x)\<close> on a float truncates toward zero.\<close>

definition py_int :: "real \<Rightarrow> int" where
  "py_int x = (if 0 \<le> x then \<lfloor>x\<rfloor> else \<lceil>x\<rceil>)"

text \<open>\<^verbatim>\<open>for _ in range(num_clones): new_population.append(self.mutate_solution(solution))\<close>.\<close>

fun mutate_clones ::
  "ImmunePlacementAlgorithm \<Rightarrow> Solution \<Rightarrow> nat \<Rightarrow> Solution list \<Rightarrow> rng \<Rightarrow> Solution list \<times> rng" where
  "mutate_clones alg s 0 new_population g = (new_population, g)"
| "mutate_clones alg s (Suc n) new_population g =
     (case mutate_solution alg s g of
        (c, g') \<Rightarrow> mutate_clones alg s n (new_population @ [c]) g')"

text \<open>\<^verbatim>\<open>for idx in range(M)\<close>: \<^verbatim>\<open>population[idx]\<close> raises IndexError past the end of the
  list.\<close>

fun clone_elite ::
  "ImmunePlacementAlgorithm \<Rightarrow> Solution list \<Rightarrow> nat list \<Rightarrow> Solution list \<Rightarrow> rng
   \<Rightarrow> py_error + Solution list \<times> rng" where
  "clone_elite alg pop [] new_population g = Inr (new_population, g)"
| "clone_elite alg pop (idx # rest) new_population g =
     (if idx < length pop then
        (let solution = pop ! idx;
             top = fitness (pop ! 0);
             fit_ratio = (if top > 0 then fitness solution / top else 1);
             num_clones = max 1 (py_int (real_of_int (clone_factor alg) * fit_ratio))
         in case mutate_clones alg solution (nat num_clones) new_population g of
              (new_population', g') \<Rightarrow> clone_elite alg pop rest new_population' g')
      else Inl IndexError)"

text \<open>\<^verbatim>\<open>while len(new_population) < self.pop_size: ...append(generate_random_solution())\<close>.\<close>

function fill_population ::
  "ImmunePlacementAlgorithm \<Rightarrow> Solution list \<Rightarrow> rng \<Rightarrow> py_error + Solution list \<times> rng" where
  "fill_population alg new_population g =
     (if int (length new_population) < pop_size alg then
        (case generate_random_solution alg g of
           Inl err \<Rightarrow> Inl err
         | Inr (s, g') \<Rightarrow> fill_population alg (new_population @ [s]) g')
      else Inr (new_population, g))"
  by pat_completeness auto
termination
  by (relation "measure (\<lambda>(alg, np, g). nat (pop_size alg - int (length np)))") auto

text \<open>The body of \<^verbatim>\<open>for generation in range(self.max_generations)\<close>. The sort is
  Python's stable sort with \<^verbatim>\<open>reverse=True\<close>, which keeps equal keys in their
  original order; the progress print reads the same attributes as the history entry
  and is left out.\<close>

definition generation_step ::
  "ImmunePlacementAlgorithm \<Rightarrow> nat \<Rightarrow> opt_state \<Rightarrow> py_error + opt_state" where
  "generation_step alg gen st =
     (case evaluate_all alg (population st) of
        Inl err \<Rightarrow> Inl err
      | Inr evaluated \<Rightarrow>
          (case fold track_best evaluated (cur_best_fitness st, best_solution st) of
             (bf, bs) \<Rightarrow>
               (let sorted_pop = sort_key (\<lambda>s. - fitness s) evaluated
                in if sorted_pop = [] then Inl ZeroDivisionError
                   else (let avg_f = sum_list (map fitness sorted_pop) / real (length sorted_pop)
                         in case bs of
                              None \<Rightarrow> Inl AttributeError
                            | Some b \<Rightarrow>
                                (let entry = \<lparr>generation = gen, best_fitness = bf,
                                              avg_fitness = avg_f,
                                              best_avg_delay = avg_delay b,
                                              best_load_imbalance = load_imbalance b,
                                              best_edge_a_load = edge_a_load b,
                                              best_edge_b_load = edge_b_load b\<rparr>;
                                     M = max 1 (pop_size alg div 3)
                                 in case clone_elite alg sorted_pop [0 ..< nat M] []
                                           (rng_state st) of
                                      Inl err \<Rightarrow> Inl err
                                    | Inr (cloned, g1) \<Rightarrow>
                                        (case fill_population alg cloned g1 of
                                           Inl err \<Rightarrow> Inl err
                                         | Inr (new_population, g2) \<Rightarrow>
                                             Inr \<lparr>population = new_population,
                                                  best_solution = Some b,
                                                  cur_best_fitness = bf,
                                                  generation_history =
                                                    generation_history st @ [entry],
                                                  best_fitness_history =
                                                    best_fitness_history st @ [bf],
                                                  avg_fitness_history =
                                                    avg_fitness_history st @ [avg_f],
                                                  rng_state = g2\<rparr>))))))"

fun run_generations ::
  "ImmunePlacementAlgorithm \<Rightarrow> nat list \<Rightarrow> opt_state \<Rightarrow> py_error + opt_state" where
  "run_generations alg [] st = Inr st"
| "run_generations alg (gen # gens) st =
     (case generation_step alg gen st of
        Inl err \<Rightarrow> Inl err
      | Inr st' \<Rightarrow> run_generations alg gens st')"

text \<open>The state after the generation loop; the closing prints of \<^verbatim>\<open>optimize\<close> read
  \<^verbatim>\<open>best_solution.avg_delay\<close>, an AttributeError when no generation has run.\<close>

definition optimize_state :: "ImmunePlacementAlgorithm \<Rightarrow> rng \<Rightarrow> py_error + opt_state" where
  "optimize_state alg g =
     (case init_population alg (nat (pop_size alg)) g of
        Inl err \<Rightarrow> Inl err
      | Inr (pop, g1) \<Rightarrow>
          run_generations alg [0 ..< nat (max_generations alg)]
            \<lparr>population = pop, best_solution = None, cur_best_fitness = - 1,
             generation_history = [], best_fitness_history = [],
             avg_fitness_history = [], rng_state = g1\<rparr>)"

definition optimize ::
  "ImmunePlacementAlgorithm \<Rightarrow> rng \<Rightarrow> py_error + Solution \<times> history_entry list" where
  "optimize alg g =
     (case optimize_state alg g of
        Inl err \<Rightarrow> Inl err
      | Inr st \<Rightarrow>
          (case best_solution st of
             None \<Rightarrow> Inl AttributeError
           | Some b \<Rightarrow> Inr (b, generation_history st)))"

section \<open>Solutions as heap objects\<close>

text \<open>
  In the source a Solution holds references to a mutable list and a mutable
  dictionary. To speak about aliasing, the list objects and the dictionary objects
  live in a store indexed by address, a Solution is the pair of the two addresses, and
  \<^verbatim>\<open>.copy()\<close> allocates a new object at the next free address.
\<close>

record heap =
  list_objs :: "string list list"
  dict_objs :: "(string \<times> string) list list"

record solution_ref =
  super_peers_at :: nat
  edge_assignments_at :: nat

definition valid_ref :: "heap \<Rightarrow> solution_ref \<Rightarrow> bool" where
  "valid_ref h r \<longleftrightarrow>
     super_peers_at r < length (list_objs h) \<and> edge_assignments_at r < length (dict_objs h)"

definition list_copy :: "heap \<Rightarrow> nat \<Rightarrow> nat \<times> heap" where
  "list_copy h a = (length (list_objs h), h\<lparr>list_objs := list_objs h @ [list_objs h ! a]\<rparr>)"

definition dict_copy :: "heap \<Rightarrow> nat \<Rightarrow> nat \<times> heap" where
  "dict_copy h a = (length (dict_objs h), h\<lparr>dict_objs := dict_objs h @ [dict_objs h ! a]\<rparr>)"

text \<open>\<^verbatim>\<open>xs[i] = v\<close> and \<^verbatim>\<open>d[k] = v\<close> on the object at address \<open>a\<close>.\<close>

definition list_setitem :: "heap \<Rightarrow> nat \<Rightarrow> nat \<Rightarrow> string \<Rightarrow> heap" where
  "list_setitem h a i v = h\<lparr>list_objs := (list_objs h)[a := (list_objs h ! a)[i := v]]\<rparr>"

definition dict_setitem :: "heap \<Rightarrow> nat \<Rightarrow> string \<Rightarrow> string \<Rightarrow> heap" where
  "dict_setitem h a k v =
     h\<lparr>dict_objs := (dict_objs h)[a := AList.update k v (dict_objs h ! a)]\<rparr>"

definition clone_solution_h :: "heap \<Rightarrow> solution_ref \<Rightarrow> solution_ref \<times> heap" where
  "clone_solution_h h r =
     (case list_copy h (super_peers_at r) of
        (a1, h1) \<Rightarrow>
          (case dict_copy h1 (edge_assignments_at r) of
             (a2, h2) \<Rightarrow> (\<lparr>super_peers_at = a1, edge_assignments_at = a2\<rparr>, h2)))"

definition mutate_super_peers_h ::
  "ImmunePlacementAlgorithm \<Rightarrow> nat \<Rightarrow> heap \<Rightarrow> rng \<Rightarrow> heap \<times> rng" where
  "mutate_super_peers_h alg a h g =
     (case random_random g of
        (u, g1) \<Rightarrow>
          if u < mutation_rate alg \<and> length (list_objs h ! a) > 0 then
            (case random_randint0 (length (list_objs h ! a)) g1 of
               (idx, g2) \<Rightarrow>
                 (let candidates = filter (\<lambda>p. p \<notin> set (list_objs h ! a)) (peer_list alg)
                  in case random_choice candidates g2 of
                       Inl err \<Rightarrow> (h, g2)
                     | Inr (c, g3) \<Rightarrow> (list_setitem h a idx c, g3)))
          else (h, g1))"

text \<open>The loop over the keys of the dictionary at address \<open>a\<close>; the keys are those
  present when the loop starts, since the body only assigns to existing keys.\<close>

fun mutate_edges_h :: "real \<Rightarrow> nat \<Rightarrow> string list \<Rightarrow> heap \<Rightarrow> rng \<Rightarrow> heap \<times> rng" where
  "mutate_edges_h rate a [] h g = (h, g)"
| "mutate_edges_h rate a (k # ks) h g =
     (case random_random g of
        (u, g1) \<Rightarrow>
          (let h1 = (if u < rate * (1 / 2)
                     then dict_setitem h a k
                            (if map_of (dict_objs h ! a) k = Some ''A'' then ''B'' else ''A'')
                     else h)
           in mutate_edges_h rate a ks h1 g1))"

definition mutate_solution_h ::
  "ImmunePlacementAlgorithm \<Rightarrow> heap \<Rightarrow> solution_ref \<Rightarrow> rng \<Rightarrow> solution_ref \<times> heap \<times> rng" where
  "mutate_solution_h alg h r g =
     (case clone_solution_h h r of
        (mutated, h1) \<Rightarrow>
          (case mutate_super_peers_h alg (super_peers_at mutated) h1 g of
             (h2, g1) \<Rightarrow>
               (case mutate_edges_h (mutation_rate alg) (edge_assignments_at mutated)
                       (map fst (dict_objs h2 ! edge_assignments_at mutated)) h2 g1 of
                  (h3, g2) \<Rightarrow> (mutated, h3, g2))))"

section \<open>Well-formedness predicates\<close>

definition valid_label :: "string \<Rightarrow> bool" where
  "valid_label e \<longleftrightarrow> e = ''A'' \<or> e = ''B''"

text \<open>The invariants of a Solution over the population of \<open>alg\<close>: the assignment is
  total over the peer ids, every label is A or B, the super-peers are distinct peer
  ids.\<close>

definition well_formed :: "ImmunePlacementAlgorithm \<Rightarrow> Solution \<Rightarrow> bool" where
  "well_formed alg s \<longleftrightarrow>
     set (map fst (edge_assignments s)) = set (map fst (peers alg)) \<and>
     list_all (\<lambda>(k, e). valid_label e) (edge_assignments s) \<and>
     set (super_peers s) \<subseteq> set (map fst (peers alg)) \<and>
     distinct (super_peers s)"

definition solution_invariant :: "ImmunePlacementAlgorithm \<Rightarrow> Solution \<Rightarrow> bool" where
  "solution_invariant alg s \<longleftrightarrow>
     well_formed alg s \<and>
     int (length (super_peers s)) \<le> min (num_super_peers alg) (int (length (peers alg)))"

definition nonneg_input :: "ImmunePlacementAlgorithm \<Rightarrow> bool" where
  "nonneg_input alg \<longleftrightarrow>
     list_all (\<lambda>(k, p). 0 \<le> demand p \<and> 0 \<le> rtt_to_edge_a p \<and> 0 \<le> rtt_to_edge_b p)
       (peers alg) \<and>
     (\<forall>k v. peer_to_peer (rtt_matrix alg) k = Some v \<longrightarrow> 0 \<le> v) \<and>
     (\<forall>k v. peer_to_edge (rtt_matrix alg) k = Some v \<longrightarrow> 0 \<le> v) \<and>
     0 \<le> alpha alg \<and> 0 \<le> beta alg"

definition delays_nonneg :: "(string \<times> real \<times> real) list \<Rightarrow> bool" where
  "delays_nonneg ds \<longleftrightarrow> list_all (\<lambda>(k, d, r). 0 \<le> d \<and> 0 \<le> r) ds"

text \<open>The objective of the evaluator, read back from the derived fields.\<close>

definition objective_of :: "ImmunePlacementAlgorithm \<Rightarrow> Solution \<Rightarrow> real" where
  "objective_of alg s =
     (let total_demand = sum_list (map (\<lambda>(k, p). demand p) (peers alg));
          max_imbalance = (total_demand / 2)\<^sup>2
      in alpha alg * (avg_delay s / 200) +
         beta alg * (if max_imbalance > 0 then load_imbalance s / max_imbalance else 0))"

text \<open>The demand a Solution puts on edge \<open>e\<close>.\<close>

definition load_on :: "string \<Rightarrow> Solution \<Rightarrow> (string \<times> Peer) list \<Rightarrow> real" where
  "load_on e s ps =
     sum_list (map (\<lambda>(k, p). demand p) (filter (\<lambda>(k, p). assigned_edge s k = e) ps))"

section \<open>Sample networks\<close>

definition mk_peer :: "string \<Rightarrow> real \<Rightarrow> real \<Rightarrow> real \<Rightarrow> Peer" where
  "mk_peer i d a b =
     \<lparr>peer_id = i, region = ''us-east'', demand = d, rtt_to_edge_a = a, rtt_to_edge_b = b,
      neighbors = []\<rparr>"

definition no_measurements :: RTTMatrix where
  "no_measurements = \<lparr>peer_to_peer = Map.empty, peer_to_edge = Map.empty\<rparr>"

text \<open>The four-peer scenario: equal demands, p1 and p2 nearer to edge A, p3 and p4
  nearer to edge B.\<close>

definition four_peers :: "Peer list" where
  "four_peers = [mk_peer ''p1'' 100 10 50, mk_peer ''p2'' 100 20 60,
                 mk_peer ''p3'' 100 70 15, mk_peer ''p4'' 100 80 25]"

definition all_on_edge_a :: "Peer list \<Rightarrow> Solution" where
  "all_on_edge_a ps = new_solution [] (fold (\<lambda>p d. AList.update (peer_id p) ''A'' d) ps [])"

definition four_alg :: ImmunePlacementAlgorithm where
  "four_alg = init_algorithm four_peers no_measurements 1 (7 / 10) (3 / 10) 10000 2 3 (1 / 10) 2"

text \<open>A two-peer network of the shape \<^verbatim>\<open>generate_synthetic_network\<close> builds: the edge
  table repeats the stored latencies, and both orderings of the pair carry their own
  measurement.\<close>

definition two_peers :: "Peer list" where
  "two_peers = [mk_peer ''peer-1'' 100 20 90, mk_peer ''peer-2'' 100 110 30]"

definition two_matrix :: RTTMatrix where
  "two_matrix =
     \<lparr>peer_to_peer = [(''peer-1'', ''peer-2'') \<mapsto> 40, (''peer-2'', ''peer-1'') \<mapsto> 60],
      peer_to_edge = [(''peer-1'', ''A'') \<mapsto> 20, (''peer-1'', ''B'') \<mapsto> 90,
                      (''peer-2'', ''A'') \<mapsto> 110, (''peer-2'', ''B'') \<mapsto> 30]\<rparr>"

definition two_alg :: ImmunePlacementAlgorithm where
  "two_alg = init_algorithm two_peers two_matrix 1 (7 / 10) (3 / 10) 10000 2 3 (1 / 10) 2"





text \<open>\<^verbatim>\<open>_random_super_peers_baseline\<close> of the runner, which samples without capping the
  count, and the Solution it returns on the two-peer network when the sample is the
  first peer.\<close>

definition random_super_peers_baseline ::
  "Peer list \<Rightarrow> int \<Rightarrow> rng \<Rightarrow> py_error + Solution \<times> rng" where
  "random_super_peers_baseline ps n g =
     (case random_sample (map peer_id ps) n g of
        Inl err \<Rightarrow> Inl err
      | Inr (sps, g') \<Rightarrow>
          Inr (new_solution sps
                 (fold (\<lambda>p d. AList.update (peer_id p)
                                (if rtt_to_edge_a p < rtt_to_edge_b p then ''A'' else ''B'') d)
                       ps []), g'))"

definition first_super_peer :: Solution where
  "first_super_peer = new_solution [''peer-1''] [(''peer-1'', ''A''), (''peer-2'', ''B'')]"

text \<open>A store with two Solutions' objects, and the reference of the first.\<close>

definition sample_heap :: heap where
  "sample_heap =
     \<lparr>list_objs = [[''p1''], [''p2'']],
      dict_objs = [[(''p1'', ''A''), (''p2'', ''A''), (''p3'', ''B''), (''p4'', ''B'')],
                   [(''p1'', ''B''), (''p2'', ''B''), (''p3'', ''B''), (''p4'', ''A'')]]\<rparr>"

definition sample_ref :: solution_ref where
  "sample_ref = \<lparr>super_peers_at = 0, edge_assignments_at = 0\<rparr>"

section \<open>The evaluator succeeds on well-formed input\<close>

lemma get_peer_rtt_nonneg:
  "(\<forall>k v. peer_to_peer (rtt_matrix alg) k = Some v \<longrightarrow> 0 \<le> v) \<Longrightarrow> 0 \<le> get_peer_rtt alg i j"
  by (auto simp: get_peer_rtt_def split: option.splits)

lemma fold_min_nonneg: "(0::real) \<le> x \<Longrightarrow> \<forall>y \<in> set xs. 0 \<le> y \<Longrightarrow> 0 \<le> fold min xs x"
  by (induction xs arbitrary: x) auto

lemma min_rtt_nonneg: "\<forall>y \<in> set xs. (0::real) \<le> y \<Longrightarrow> min_rtt xs = Some d \<Longrightarrow> 0 \<le> d"
  by (cases xs) (auto simp: fold_min_nonneg)

lemma effective_delay_nonneg:
  "(\<And>d. d_super = Some d \<Longrightarrow> 0 \<le> d) \<Longrightarrow> 0 \<le> d_edge \<Longrightarrow> 0 \<le> effective_delay d_super d_edge"
  by (auto simp: effective_delay_def split: option.splits)

lemma get_edge_rtt_ok:
  assumes "map_of (peers alg) pid = Some q"
  shows "\<exists>v. get_edge_rtt alg pid e = Inr v"
  using assms by (auto simp: get_edge_rtt_def split: option.splits)

lemma get_edge_rtt_nonneg:
  assumes "nonneg_input alg" "get_edge_rtt alg pid e = Inr v"
  shows "0 \<le> v"
proof -
  have "\<And>q. map_of (peers alg) pid = Some q \<Longrightarrow> 0 \<le> rtt_to_edge_a q \<and> 0 \<le> rtt_to_edge_b q"
    using assms(1) by (auto simp: nonneg_input_def list_all_iff dest!: map_of_SomeD)
  then show ?thesis
    using assms by (auto simp: get_edge_rtt_def nonneg_input_def split: option.splits if_splits)
qed

lemma assigned_edge_valid:
  "list_all (\<lambda>(k, e). valid_label e) (edge_assignments s) \<Longrightarrow> valid_label (assigned_edge s pid)"
  by (auto simp: assigned_edge_def valid_label_def list_all_iff split: option.splits dest!: map_of_SomeD)

lemma add_load_valid: "valid_label e \<Longrightarrow> \<exists>l'. add_load e d l = Inr l'"
  by (auto simp: add_load_def valid_label_def)

lemma eval_peers_ok:
  assumes "nonneg_input alg"
    and "list_all (\<lambda>(k, e). valid_label e) (edge_assignments s)"
    and "\<forall>(k, p) \<in> set ps. map_of (peers alg) k \<noteq> None \<and> 0 \<le> demand p"
    and "delays_nonneg ds"
  shows "\<exists>ds' l'. eval_peers alg s ps (ds, l) = Inr (ds', l') \<and> delays_nonneg ds'"
  using assms(3,4)
proof (induction ps arbitrary: ds l)
  case Nil
  then show ?case by simp
next
  case (Cons a ps)
  obtain pid p where a: "a = (pid, p)" by (cases a)
  from Cons.prems a obtain q where q: "map_of (peers alg) pid = Some q" and dp: "0 \<le> demand p"
    by auto
  obtain v where v: "get_edge_rtt alg pid (assigned_edge s pid) = Inr v"
    using get_edge_rtt_ok[OF q] by blast
  have v0: "0 \<le> v" using get_edge_rtt_nonneg[OF assms(1) v] .
  obtain l' where l': "add_load (assigned_edge s pid) (demand p) l = Inr l'"
    using add_load_valid[OF assigned_edge_valid[OF assms(2)]] by blast
  have pp: "\<forall>k v. peer_to_peer (rtt_matrix alg) k = Some v \<longrightarrow> 0 \<le> v"
    using assms(1) by (simp add: nonneg_input_def)
  have e0: "0 \<le> effective_delay (min_rtt (map (get_peer_rtt alg pid) (super_peers s))) v"
    by (rule effective_delay_nonneg[OF _ v0], rule min_rtt_nonneg[rotated], assumption)
       (auto simp: get_peer_rtt_nonneg[OF pp])
  have dn: "delays_nonneg (ds @ [(pid, effective_delay (min_rtt (map (get_peer_rtt alg pid) (super_peers s))) v, demand p)])"
    using Cons.prems(2) e0 dp by (simp add: delays_nonneg_def)
  have rest: "\<forall>(k, p) \<in> set ps. map_of (peers alg) k \<noteq> None \<and> 0 \<le> demand p"
    using Cons.prems(1) by simp
  from Cons.IH[OF rest dn] show ?case
    by (simp add: a v l' Let_def)
qed

lemma sum_list_delays_nonneg:
  "delays_nonneg ds \<Longrightarrow> 0 \<le> sum_list (map (\<lambda>(k, d, r). d * r) ds)"
  by (induction ds) (auto simp: delays_nonneg_def)

lemma map_of_member_not_None: "(k, v) \<in> set xs \<Longrightarrow> map_of xs k \<noteq> None"
  by (induction xs) auto


lemma eval_peers_loads:
  "eval_peers alg s ps (ds, l) = Inr (ds', l') \<Longrightarrow>
   l' = (fst l + load_on ''A'' s ps, snd l + load_on ''B'' s ps)"
proof (induction ps arbitrary: ds l)
  case Nil
  then show ?case by (simp add: load_on_def)
next
  case (Cons a ps)
  obtain pid p where a: "a = (pid, p)" by (cases a)
  from Cons.prems obtain v l1 where
    l1: "add_load (assigned_edge s pid) (demand p) l = Inr l1" and
    rest: "eval_peers alg s ps (ds @ [(pid, effective_delay (min_rtt (map (get_peer_rtt alg pid) (super_peers s))) v, demand p)], l1) = Inr (ds', l')"
    by (auto simp: a Let_def split: sum.splits)
  from Cons.IH[OF rest] have l': "l' = (fst l1 + load_on ''A'' s ps, snd l1 + load_on ''B'' s ps)" .
  from l1 show ?case
    by (auto simp: l' a add_load_def load_on_def split: if_splits)
qed

text \<open>What a successful evaluation returns, under the preconditions that exclude every
  exception.\<close>

lemma evaluate_solution_succeeds:
  assumes "nonneg_input alg" and lab: "list_all (\<lambda>(k, e). valid_label e) (edge_assignments s)"
  shows "\<exists>s'. evaluate_solution alg s = Inr s' \<and> 0 < fitness s' \<and>
              fitness s' = 1 / (objective_of alg s' + 1 / 1000000) \<and>
              edge_a_load s' = load_on ''A'' s (peers alg) \<and>
              edge_b_load s' = load_on ''B'' s (peers alg) \<and>
              load_imbalance s' =
                (1 / 2) * ((edge_a_load s' - (edge_a_load s' + edge_b_load s') / 2)\<^sup>2 +
                           (edge_b_load s' - (edge_a_load s' + edge_b_load s') / 2)\<^sup>2) \<and>
              super_peers s' = super_peers s \<and> edge_assignments s' = edge_assignments s"
proof -
  have dem: "\<forall>(k, p) \<in> set (peers alg). map_of (peers alg) k \<noteq> None \<and> 0 \<le> demand p"
    using assms(1) by (auto simp: nonneg_input_def list_all_iff dest: map_of_member_not_None)
  obtain ds l where ev: "eval_peers alg s (peers alg) ([], (0, 0)) = Inr (ds, l)"
    and dn: "delays_nonneg ds"
    using eval_peers_ok[OF assms(1) lab dem, of "[]" "(0, 0)"] by (auto simp: delays_nonneg_def)
  have l: "l = (load_on ''A'' s (peers alg), load_on ''B'' s (peers alg))"
    using eval_peers_loads[OF ev] by simp
  define total where "total = sum_list (map (\<lambda>(k, p). demand p) (peers alg))"
  define avg where "avg = (if total > 0 then sum_list (map (\<lambda>(k, d, r). d * r) ds) / total else 0)"
  define imb where "imb = (1 / 2) * ((fst l - (fst l + snd l) / 2)\<^sup>2 + (snd l - (fst l + snd l) / 2)\<^sup>2)"
  define obj where "obj = alpha alg * (avg / 200) + beta alg * (if (total / 2)\<^sup>2 > 0 then imb / (total / 2)\<^sup>2 else 0)"
  have avg0: "0 \<le> avg"
    using sum_list_delays_nonneg[OF dn] by (simp add: avg_def)
  have imb0: "0 \<le> imb" by (simp add: imb_def)
  have ab: "0 \<le> alpha alg" "0 \<le> beta alg" using assms(1) by (simp_all add: nonneg_input_def)
  have obj0: "0 \<le> obj"
    unfolding obj_def using avg0 imb0 ab by (auto intro!: add_nonneg_nonneg mult_nonneg_nonneg)
  have pos: "0 < obj + 1 / 1000000" using obj0 by simp
  have ne: "obj + 1 / 1000000 \<noteq> 0" using pos by simp
  define s' where "s' = s\<lparr>fitness := 1 / (obj + 1 / 1000000), avg_delay := avg, load_imbalance := imb,
             edge_a_load := fst l, edge_b_load := snd l\<rparr>"
  have res0: "evaluate_solution alg s = (if obj + 1 / 1000000 = 0 then Inl ZeroDivisionError else Inr s')"
    by (simp add: evaluate_solution_def ev Let_def total_def avg_def imb_def obj_def s'_def)
  have res: "evaluate_solution alg s = Inr s'"
    using ne by (simp only: res0 if_False)
  have ob: "objective_of alg s' = obj"
    by (simp add: objective_of_def Let_def total_def obj_def s'_def)
  have fit: "fitness s' = 1 / (obj + 1 / 1000000)" by (simp add: s'_def)
  have flds: "edge_a_load s' = fst l" "edge_b_load s' = snd l" "load_imbalance s' = imb"
    "super_peers s' = super_peers s" "edge_assignments s' = edge_assignments s"
    by (simp_all add: s'_def)
  have "evaluate_solution alg s = Inr s' \<and> 0 < fitness s' \<and>
        fitness s' = 1 / (objective_of alg s' + 1 / 1000000) \<and>
        edge_a_load s' = load_on ''A'' s (peers alg) \<and>
        edge_b_load s' = load_on ''B'' s (peers alg) \<and>
        load_imbalance s' =
                (1 / 2) * ((edge_a_load s' - (edge_a_load s' + edge_b_load s') / 2)\<^sup>2 +
                           (edge_b_load s' - (edge_a_load s' + edge_b_load s') / 2)\<^sup>2) \<and>
        super_peers s' = super_peers s \<and> edge_assignments s' = edge_assignments s"
    using pos by (simp add: res ob fit flds imb_def) (simp add: l)
  then show ?thesis by blast
qed

lemma four_alg_peers: "peers four_alg =
   [(''p1'', mk_peer ''p1'' 100 10 50), (''p2'', mk_peer ''p2'' 100 20 60),
    (''p3'', mk_peer ''p3'' 100 70 15), (''p4'', mk_peer ''p4'' 100 80 25)]"
  by (simp add: four_alg_def init_algorithm_def peer_dict_def four_peers_def mk_peer_def)


lemma four_alg_nonneg: "nonneg_input four_alg"
  by (simp add: nonneg_input_def four_alg_peers mk_peer_def)
     (simp add: four_alg_def init_algorithm_def no_measurements_def)




section \<open>Distance oracle: defaults and symmetry\<close>







section \<open>Missing assignments and the four-peer scenario\<close>







lemma all_a_four: "edge_assignments (all_on_edge_a four_peers) =
  [(''p1'', ''A''), (''p2'', ''A''), (''p3'', ''A''), (''p4'', ''A'')]"
  by (simp add: all_on_edge_a_def new_solution_def four_peers_def mk_peer_def)

text \<open>
  Claim C2, as stated, fails: with all four peers on edge A the loads are 400 and 0,
  the mean is 200, and the variance formula gives 40000, not 10000.
\<close>

theorem all_on_a_imbalance_counterexample:
  "map_sum id load_imbalance (evaluate_solution four_alg (all_on_edge_a four_peers)) = Inr 40000"
proof -
  have lab: "list_all (\<lambda>(k, e). valid_label e) (edge_assignments (all_on_edge_a four_peers))"
    by (simp add: all_a_four valid_label_def)
  obtain s' where s': "evaluate_solution four_alg (all_on_edge_a four_peers) = Inr s'"
    and a: "edge_a_load s' = load_on ''A'' (all_on_edge_a four_peers) (peers four_alg)"
    and b: "edge_b_load s' = load_on ''B'' (all_on_edge_a four_peers) (peers four_alg)"
    and i: "load_imbalance s' =
                (1 / 2) * ((edge_a_load s' - (edge_a_load s' + edge_b_load s') / 2)\<^sup>2 +
                           (edge_b_load s' - (edge_a_load s' + edge_b_load s') / 2)\<^sup>2)"
    using evaluate_solution_succeeds[OF four_alg_nonneg lab] by blast
  have a': "edge_a_load s' = 400"
    by (simp add: a load_on_def four_alg_peers assigned_edge_def all_a_four mk_peer_def)
  have b': "edge_b_load s' = 0"
    by (simp add: b load_on_def four_alg_peers assigned_edge_def all_a_four mk_peer_def)
  show ?thesis by (simp add: s' i a' b')
qed

lemma peer_dict_four:
  "distinct [peer_id q1, peer_id q2, peer_id q3, peer_id q4] \<Longrightarrow>
   peer_dict [q1, q2, q3, q4] =
     [(peer_id q1, q1), (peer_id q2, q2), (peer_id q3, q3), (peer_id q4, q4)]"
  by (auto simp: peer_dict_def)

text \<open>
  Claim C2, amended. For four peers with distinct ids and demand 100 each, the first two
  nearer to edge A and the last two nearer to edge B, and no super-peers: the Solution
  with all four on edge A evaluates to loads 400 and 0 and load imbalance 40000; the
  nearest-edge Solution evaluates to loads 200 and 200 and load imbalance 0.
\<close>

theorem four_peer_scenario:
  assumes ids: "distinct [peer_id q1, peer_id q2, peer_id q3, peer_id q4]"
    and dem: "demand q1 = 100" "demand q2 = 100" "demand q3 = 100" "demand q4 = 100"
    and near: "rtt_to_edge_a q1 < rtt_to_edge_b q1" "rtt_to_edge_a q2 < rtt_to_edge_b q2"
              "rtt_to_edge_b q3 < rtt_to_edge_a q3" "rtt_to_edge_b q4 < rtt_to_edge_a q4"
    and alg: "alg = init_algorithm [q1, q2, q3, q4] m nsp al be cap psz cf mr mg"
    and nn: "nonneg_input alg"
  shows "(\<exists>s'. evaluate_solution alg (all_on_edge_a [q1, q2, q3, q4]) = Inr s' \<and>
               edge_a_load s' = 400 \<and> edge_b_load s' = 0 \<and> load_imbalance s' = 40000) \<and>
         (\<exists>s'. evaluate_solution alg (nearest_edge_baseline [q1, q2, q3, q4]) = Inr s' \<and>
               edge_a_load s' = 200 \<and> edge_b_load s' = 200 \<and> load_imbalance s' = 0)"
proof
  have ps: "peers alg = [(peer_id q1, q1), (peer_id q2, q2), (peer_id q3, q3), (peer_id q4, q4)]"
    by (simp add: alg init_algorithm_def peer_dict_four[OF ids])
  have ne: "peer_id q1 \<noteq> peer_id q2" "peer_id q1 \<noteq> peer_id q3" "peer_id q1 \<noteq> peer_id q4"
           "peer_id q2 \<noteq> peer_id q3" "peer_id q2 \<noteq> peer_id q4" "peer_id q3 \<noteq> peer_id q4"
    using ids by auto
  have ea_a: "edge_assignments (all_on_edge_a [q1, q2, q3, q4]) =
     [(peer_id q1, ''A''), (peer_id q2, ''A''), (peer_id q3, ''A''), (peer_id q4, ''A'')]"
    using ne by (auto simp: all_on_edge_a_def new_solution_def)
  have ea_n: "edge_assignments (nearest_edge_baseline [q1, q2, q3, q4]) =
     [(peer_id q1, ''A''), (peer_id q2, ''A''), (peer_id q3, ''B''), (peer_id q4, ''B'')]"
    using ne near by (auto simp: nearest_edge_baseline_def new_solution_def)
  {
    have lab: "list_all (\<lambda>(k, e). valid_label e) (edge_assignments (all_on_edge_a [q1, q2, q3, q4]))"
      by (simp add: ea_a valid_label_def)
    obtain s' where s': "evaluate_solution alg (all_on_edge_a [q1, q2, q3, q4]) = Inr s'"
      and a: "edge_a_load s' = load_on ''A'' (all_on_edge_a [q1, q2, q3, q4]) (peers alg)"
      and b: "edge_b_load s' = load_on ''B'' (all_on_edge_a [q1, q2, q3, q4]) (peers alg)"
      and i: "load_imbalance s' =
                (1 / 2) * ((edge_a_load s' - (edge_a_load s' + edge_b_load s') / 2)\<^sup>2 +
                           (edge_b_load s' - (edge_a_load s' + edge_b_load s') / 2)\<^sup>2)"
      using evaluate_solution_succeeds[OF nn lab] by blast
    have a': "edge_a_load s' = 400"
      using ne by (simp add: a load_on_def ps assigned_edge_def ea_a dem)
    have b': "edge_b_load s' = 0"
      using ne by (simp add: b load_on_def ps assigned_edge_def ea_a dem)
    have "load_imbalance s' = 40000" by (simp add: i a' b')
    with s' a' b'
    show "\<exists>s'. evaluate_solution alg (all_on_edge_a [q1, q2, q3, q4]) = Inr s' \<and>
               edge_a_load s' = 400 \<and> edge_b_load s' = 0 \<and> load_imbalance s' = 40000"
      by blast
  }
  {
    have lab: "list_all (\<lambda>(k, e). valid_label e) (edge_assignments (nearest_edge_baseline [q1, q2, q3, q4]))"
      by (simp add: ea_n valid_label_def)
    obtain s' where s': "evaluate_solution alg (nearest_edge_baseline [q1, q2, q3, q4]) = Inr s'"
      and a: "edge_a_load s' = load_on ''A'' (nearest_edge_baseline [q1, q2, q3, q4]) (peers alg)"
      and b: "edge_b_load s' = load_on ''B'' (nearest_edge_baseline [q1, q2, q3, q4]) (peers alg)"
      and i: "load_imbalance s' =
                (1 / 2) * ((edge_a_load s' - (edge_a_load s' + edge_b_load s') / 2)\<^sup>2 +
                           (edge_b_load s' - (edge_a_load s' + edge_b_load s') / 2)\<^sup>2)"
      using evaluate_solution_succeeds[OF nn lab] by blast
    have a': "edge_a_load s' = 200"
      using ne by (simp add: a load_on_def ps assigned_edge_def ea_n dem)
    have b': "edge_b_load s' = 200"
      using ne by (simp add: b load_on_def ps assigned_edge_def ea_n dem)
    have "load_imbalance s' = 0" by (simp add: i a' b')
    with s' a' b'
    show "\<exists>s'. evaluate_solution alg (nearest_edge_baseline [q1, q2, q3, q4]) = Inr s' \<and>
               edge_a_load s' = 200 \<and> edge_b_load s' = 200 \<and> load_imbalance s' = 0"
      by blast
  }
qed

theorem four_peer_scenario_witness:
  "(\<exists>s'. evaluate_solution four_alg (all_on_edge_a four_peers) = Inr s' \<and>
         edge_a_load s' = 400 \<and> edge_b_load s' = 0 \<and> load_imbalance s' = 40000) \<and>
   (\<exists>s'. evaluate_solution four_alg (nearest_edge_baseline four_peers) = Inr s' \<and>
         edge_a_load s' = 200 \<and> edge_b_load s' = 200 \<and> load_imbalance s' = 0)"
proof -
  have alg: "four_alg = init_algorithm [mk_peer ''p1'' 100 10 50, mk_peer ''p2'' 100 20 60,
                 mk_peer ''p3'' 100 70 15, mk_peer ''p4'' 100 80 25] no_measurements 1 (7 / 10) (3 / 10) 10000 2 3 (1 / 10) 2"
    by (simp add: four_alg_def four_peers_def)
  show ?thesis
    unfolding four_peers_def
    by (rule four_peer_scenario[OF _ _ _ _ _ _ _ _ _ alg four_alg_nonneg])
       (simp_all add: mk_peer_def)
qed

section \<open>The runner's metrics against the evaluator\<close>

lemma two_alg_peers: "peers two_alg =
   [(''peer-1'', mk_peer ''peer-1'' 100 20 90), (''peer-2'', mk_peer ''peer-2'' 100 110 30)]"
  by (simp add: two_alg_def init_algorithm_def peer_dict_def two_peers_def mk_peer_def)

lemma two_alg_fields: "rtt_matrix two_alg = two_matrix" "alpha two_alg = 7 / 10" "beta two_alg = 3 / 10"
  by (simp_all add: two_alg_def init_algorithm_def)

lemma two_peer_dict: "peer_dict two_peers =
   [(''peer-1'', mk_peer ''peer-1'' 100 20 90), (''peer-2'', mk_peer ''peer-2'' 100 110 30)]"
  by (simp add: peer_dict_def two_peers_def mk_peer_def)

lemma first_super_peer_eval:
  "eval_peers two_alg first_super_peer (peers two_alg) ([], (0, 0)) =
     Inr ([(''peer-1'', 5, 100), (''peer-2'', 30, 100)], (100, 100))"
  by (simp add: two_alg_peers two_alg_fields first_super_peer_def new_solution_def
      get_peer_rtt_def get_edge_rtt_def two_matrix_def assigned_edge_def effective_delay_def
      add_load_def mk_peer_def Let_def)

lemma first_super_peer_metrics:
  "metrics_peers first_super_peer two_matrix (peer_dict two_peers)
     \<lparr>m_delays = [], m_loads = (0, 0), m_p2p_hits = 0, m_edge_hits = (0, 0),
      m_total_demand = 0\<rparr> =
   Inr \<lparr>m_delays = [(''peer-1'', 20, 100), (''peer-2'', 30, 100)], m_loads = (100, 100),
        m_p2p_hits = 0, m_edge_hits = (1, 1), m_total_demand = 200\<rparr>"
  by (simp add: two_peer_dict first_super_peer_def new_solution_def
      runner_peer_rtt_def two_matrix_def assigned_edge_def
      add_load_def add_hit_def mk_peer_def Let_def)

text \<open>
  Claim C1 asks that the metrics routine of the runner and the evaluator agree on every
  Solution. On the two-peer network, for the Solution the random-super-peer baseline
  returns when it samples the first peer, they do not: the evaluator gives a peer that
  is its own super-peer the distance 0, hence the effective delay 5, and reports the
  average delay 17.5; the runner looks the pair (p, p) up in the table, finds nothing,
  takes 100, and reports 25.
\<close>

theorem metrics_diverge_from_evaluator:
  "random_super_peers_baseline two_peers 1 [0] = Inr (first_super_peer, []) \<and>
   map_sum id avg_delay (evaluate_solution two_alg first_super_peer) = Inr (35 / 2) \<and>
   map_sum id avg_delay_ms (evaluate_solution_metrics first_super_peer two_peers two_matrix)
     = Inr 25"
proof -
  have a: "random_super_peers_baseline two_peers 1 [0] = Inr (first_super_peer, [])"
    by (simp add: random_super_peers_baseline_def random_sample_def two_peers_def mk_peer_def
        next_draw_def first_super_peer_def)
  have b: "map_sum id avg_delay (evaluate_solution two_alg first_super_peer) = Inr (35 / 2)"
    by (simp add: evaluate_solution_def first_super_peer_eval Let_def)
       (simp add: two_alg_peers two_alg_fields mk_peer_def)
  have c: "map_sum id avg_delay_ms (evaluate_solution_metrics first_super_peer two_peers two_matrix)
     = Inr 25"
    by (simp add: evaluate_solution_metrics_def first_super_peer_metrics Let_def)
  from a b c show ?thesis by blast
qed


section \<open>Mutation on the store\<close>

lemma clone_solution_h_frame:
  assumes "clone_solution_h h r = (m, h1)"
  shows "super_peers_at m = length (list_objs h) \<and>
         edge_assignments_at m = length (dict_objs h) \<and>
         list_objs h1 = list_objs h @ [list_objs h ! super_peers_at r] \<and>
         dict_objs h1 = dict_objs h @ [dict_objs h ! edge_assignments_at r]"
  using assms by (auto simp: clone_solution_h_def list_copy_def dict_copy_def)

lemma mutate_super_peers_h_frame:
  assumes "mutate_super_peers_h alg a h g = (h', g')"
  shows "dict_objs h' = dict_objs h \<and> length (list_objs h') = length (list_objs h) \<and>
         (\<forall>b. b \<noteq> a \<longrightarrow> list_objs h' ! b = list_objs h ! b)"
  using assms
  by (auto simp: mutate_super_peers_h_def list_setitem_def Let_def
      split: prod.splits if_splits sum.splits)

lemma mutate_edges_h_frame:
  "mutate_edges_h rate a ks h g = (h', g') \<Longrightarrow>
   list_objs h' = list_objs h \<and> length (dict_objs h') = length (dict_objs h) \<and>
   (\<forall>b. b \<noteq> a \<longrightarrow> dict_objs h' ! b = dict_objs h ! b)"
proof (induction ks arbitrary: h g)
  case Nil
  then show ?case by simp
next
  case (Cons k ks)
  obtain u g1 where u: "random_random g = (u, g1)" by (cases "random_random g")
  define h1 where "h1 = (if u < rate * (1 / 2)
                     then dict_setitem h a k
                            (if map_of (dict_objs h ! a) k = Some ''A'' then ''B'' else ''A'')
                     else h)"
  have r: "mutate_edges_h rate a ks h1 g1 = (h', g')"
    using Cons.prems by (simp add: u h1_def Let_def)
  have s: "list_objs h1 = list_objs h \<and> length (dict_objs h1) = length (dict_objs h) \<and>
           (\<forall>b. b \<noteq> a \<longrightarrow> dict_objs h1 ! b = dict_objs h ! b)"
    by (simp add: h1_def dict_setitem_def)
  from Cons.IH[OF r] s show ?case by simp
qed

lemma mutate_solution_h_frame:
  assumes "mutate_solution_h alg h r g = (m, h', g')"
  shows "super_peers_at m = length (list_objs h) \<and>
         edge_assignments_at m = length (dict_objs h) \<and>
         length (list_objs h') = Suc (length (list_objs h)) \<and>
         length (dict_objs h') = Suc (length (dict_objs h)) \<and>
         (\<forall>a < length (list_objs h). list_objs h' ! a = list_objs h ! a) \<and>
         (\<forall>a < length (dict_objs h). dict_objs h' ! a = dict_objs h ! a)"
proof -
  obtain m1 h1 where c: "clone_solution_h h r = (m1, h1)" by (cases "clone_solution_h h r")
  obtain h2 g1 where s: "mutate_super_peers_h alg (super_peers_at m1) h1 g = (h2, g1)"
    by (cases "mutate_super_peers_h alg (super_peers_at m1) h1 g")
  obtain h3 g2 where e: "mutate_edges_h (mutation_rate alg) (edge_assignments_at m1)
                       (map fst (dict_objs h2 ! edge_assignments_at m1)) h2 g1 = (h3, g2)"
    by (cases "mutate_edges_h (mutation_rate alg) (edge_assignments_at m1)
                       (map fst (dict_objs h2 ! edge_assignments_at m1)) h2 g1")
  have res: "m = m1" "h' = h3"
    using assms by (simp_all add: mutate_solution_h_def c s e)
  note cf = clone_solution_h_frame[OF c]
  note sf = mutate_super_peers_h_frame[OF s]
  note ef = mutate_edges_h_frame[OF e]
  have l: "\<forall>a < length (list_objs h). list_objs h3 ! a = list_objs h ! a"
    using cf sf ef by (auto simp: nth_append)
  have d: "\<forall>a < length (dict_objs h). dict_objs h3 ! a = dict_objs h ! a"
    using cf sf ef by (auto simp: nth_append)
  show ?thesis
    using cf sf ef l d by (simp add: res)
qed

text \<open>
  Claim C9. \<^verbatim>\<open>mutate_solution\<close> works on freshly allocated copies: after the call the
  list and the dictionary of the input Solution hold what they held before, the
  returned Solution refers to two other objects, and a later item assignment through
  the returned Solution's references leaves the input's objects as they were.
\<close>

theorem mutate_never_touches_input:
  assumes "valid_ref h r" and "mutate_solution_h alg h r g = (m, h', g')"
  shows "list_objs h' ! super_peers_at r = list_objs h ! super_peers_at r \<and>
         dict_objs h' ! edge_assignments_at r = dict_objs h ! edge_assignments_at r \<and>
         super_peers_at m \<noteq> super_peers_at r \<and>
         edge_assignments_at m \<noteq> edge_assignments_at r \<and>
         valid_ref h' m \<and>
         (\<forall>i v. list_objs (list_setitem h' (super_peers_at m) i v) ! super_peers_at r =
                 list_objs h ! super_peers_at r) \<and>
         (\<forall>k v. dict_objs (dict_setitem h' (edge_assignments_at m) k v) ! edge_assignments_at r =
                 dict_objs h ! edge_assignments_at r)"
proof -
  note f = mutate_solution_h_frame[OF assms(2)]
  have v: "super_peers_at r < length (list_objs h)" "edge_assignments_at r < length (dict_objs h)"
    using assms(1) by (simp_all add: valid_ref_def)
  show ?thesis
    using f v by (simp add: valid_ref_def list_setitem_def dict_setitem_def)
qed

theorem mutate_never_touches_input_witness:
  "list_objs (fst (snd (mutate_solution_h four_alg sample_heap sample_ref [0, 0, 0, 0]))) ! 0 = [''p1''] \<and>
   dict_objs (fst (snd (mutate_solution_h four_alg sample_heap sample_ref [0, 0, 0, 0]))) ! 0 =
     [(''p1'', ''A''), (''p2'', ''A''), (''p3'', ''B''), (''p4'', ''B'')] \<and>
   list_objs (fst (snd (mutate_solution_h four_alg sample_heap sample_ref [0, 0, 0, 0]))) ! 2 = [''p2''] \<and>
   dict_objs (fst (snd (mutate_solution_h four_alg sample_heap sample_ref [0, 0, 0, 0]))) ! 2 =
     [(''p1'', ''B''), (''p2'', ''B''), (''p3'', ''A''), (''p4'', ''A'')]"
proof -
  have v: "valid_ref sample_heap sample_ref"
    by (simp add: valid_ref_def sample_heap_def sample_ref_def)
  have fl: "mutation_rate four_alg = 1 / 10" "peer_list four_alg = [''p1'', ''p2'', ''p3'', ''p4'']"
    by (simp_all add: four_alg_def init_algorithm_def four_peers_def mk_peer_def)
  have run: "mutate_solution_h four_alg sample_heap sample_ref [0, 0, 0, 0] =
     (\<lparr>super_peers_at = 2, edge_assignments_at = 2\<rparr>,
      \<lparr>list_objs = [[''p1''], [''p2''], [''p2'']],
       dict_objs = [[(''p1'', ''A''), (''p2'', ''A''), (''p3'', ''B''), (''p4'', ''B'')],
                    [(''p1'', ''B''), (''p2'', ''B''), (''p3'', ''B''), (''p4'', ''A'')],
                    [(''p1'', ''B''), (''p2'', ''B''), (''p3'', ''A''), (''p4'', ''A'')]]\<rparr>,
      [])"
    by (simp add: mutate_solution_h_def clone_solution_h_def list_copy_def dict_copy_def
        mutate_super_peers_h_def random_random_def random_randint0_def random_choice_def
        next_draw_def list_setitem_def dict_setitem_def sample_heap_def sample_ref_def fl Let_def)
  show ?thesis
    unfolding run
    using mutate_never_touches_input[OF v run] by (simp add: sample_heap_def sample_ref_def)
qed

end
